theory Spec2Isabelle
  imports Complex_Main
begin

section \<open>Values, rows and the server state\<close>

text \<open>
  The handlers of \<^verbatim>\<open>src/server.js\<close> read JavaScript values out of the request
  body, out of the rows the database driver returns and out of decoded token payloads.
  A value is one of the JSON shapes or \<^verbatim>\<open>undefined\<close>. A number is written as the
  integer it denotes; the handlers hold doubles, which are these integers below
  \<open>2^53\<close>, and no property below rests on a larger one. A string is a list of code
  units.
\<close>

datatype js =
    Undefined
  | Null
  | JBool bool
  | JNum int
  | JStr string
  | JArr "js list"
  | JObj "(string \<times> js) list"

text \<open>
  An object as the handlers use it: a finite map from property names to values.
  Reading a property the object does not have gives \<^verbatim>\<open>undefined\<close>.
\<close>

type_synonym obj = "string \<rightharpoonup> js"

definition get :: "obj \<Rightarrow> string \<Rightarrow> js" where
  "get ob k = (case ob k of None \<Rightarrow> Undefined | Some v \<Rightarrow> v)"

text \<open>
  A row of the \<^verbatim>\<open>users\<close> table. The columns are the ones the statements of the
  source name: \<^verbatim>\<open>INSERT INTO users (first_name, last_name, email, password)\<close>,
  \<^verbatim>\<open>WHERE email = ? OR phone_number = ?\<close> and \<^verbatim>\<open>user.id\<close>. A column holds
  the value the driver hands back (\<open>Null\<close> for SQL NULL).
\<close>

record user_row =
  user_id :: nat
  first_name :: js
  last_name :: js
  email :: js
  phone_number :: js
  password :: js

text \<open>
  A row of the \<^verbatim>\<open>files\<close> table:
  \<^verbatim>\<open>INSERT INTO files (name, extension, mime_type, size)\<close>,
  \<^verbatim>\<open>UPDATE files SET filename = ? WHERE id = ?\<close>.
\<close>

record file_row =
  file_id :: nat
  name :: js
  extension :: js
  mime_type :: js
  size_col :: js
  filename :: js

text \<open>
  The row object of \<^verbatim>\<open>SELECT * FROM files\<close>: its keys are the column names, and
  any other property is \<^verbatim>\<open>undefined\<close>.
\<close>

definition file_prop :: "file_row \<Rightarrow> string \<Rightarrow> js" where
  "file_prop f k =
     (if k = ''id'' then JNum (int (file_id f))
      else if k = ''name'' then name f
      else if k = ''extension'' then extension f
      else if k = ''mime_type'' then mime_type f
      else if k = ''size'' then size_col f
      else if k = ''filename'' then filename f
      else Undefined)"

text \<open>Calls into the \<^verbatim>\<open>path\<close> and \<^verbatim>\<open>fs\<close> modules, in the order they are made.\<close>

datatype io_event = PathJoin string | Unlink string | SendFile string

text \<open>
  The state the handlers share: the two tables, the module-level array
  \<^verbatim>\<open>refreshTokens\<close>, the trace of path and filesystem calls, and a schedule that
  says, for each coming database query in turn, whether the database fails it
  (an exhausted schedule means no further failure).
\<close>

record state =
  users :: "user_row list"
  files :: "file_row list"
  refreshTokens :: "string list"
  io_log :: "io_event list"
  db_faults :: "bool list"

definition db_call :: "state \<Rightarrow> bool \<times> state" where
  "db_call st =
     (case db_faults st of
        [] \<Rightarrow> (True, st)
      | f # fs \<Rightarrow> (\<not> f, st\<lparr>db_faults := fs\<rparr>))"

text \<open>
  \<^verbatim>\<open>pool\<close> is the pool of the \<^verbatim>\<open>mysql\<close> driver
  (\<^verbatim>\<open>createPool\<close> in \<^verbatim>\<open>src/config/database.js\<close>). Its \<^verbatim>\<open>query\<close> hands the
  outcome to a callback, the way signin calls it, and returns the Query object it has
  created, which is not a promise. A handler that writes
  \<^verbatim>\<open>await pool.query(sql, values)\<close> therefore receives that object, whatever the
  database finds or reports, and reading an index of it gives \<^verbatim>\<open>undefined\<close>.
  The statement is still sent: a read takes its turn in the schedule, and a write changes
  the table unless the database fails it.
\<close>

datatype query_object = Query

definition pool_query_await :: "'a list \<Rightarrow> state \<Rightarrow> query_object \<times> state" where
  "pool_query_await found st = (Query, snd (db_call st))"

definition pool_update_await ::
    "(file_row list \<Rightarrow> file_row list) \<Rightarrow> state \<Rightarrow> query_object \<times> state" where
  "pool_update_await change st =
     (let (ok, st1) = db_call st
      in (Query, if ok then st1\<lparr>files := change (files st1)\<rparr> else st1))"

definition element0 :: "query_object \<Rightarrow> 'a option" where
  "element0 result = None"

section \<open>External collaborators\<close>

text \<open>
  The libraries the handlers call are parameters of the model: Joi's e-mail rule,
  bcrypt (\<open>None\<close> is a rejected promise), jsonwebtoken (\<open>None\<close> is a thrown or
  reported error; the clock is part of the function), the comparison the database makes
  between a column and a bound parameter, the two signing secrets of the process
  environment, and \<^verbatim>\<open>__dirname\<close>. \<^verbatim>\<open>generateAccessToken\<close> is called by the refresh
  handler and declared in no file of the repository; it is a parameter as well.
\<close>

record env =
  email_rule :: "string \<Rightarrow> bool"
  bcrypt_hash :: "js \<Rightarrow> nat \<Rightarrow> string option"
  bcrypt_compare :: "js \<Rightarrow> js \<Rightarrow> bool option"
  jwt_sign :: "obj \<Rightarrow> string option \<Rightarrow> string \<Rightarrow> string option"
  jwt_verify :: "js \<Rightarrow> string option \<Rightarrow> obj option"
  generateAccessToken :: "obj \<Rightarrow> js"
  ACCESS_SECRET_TOKEN :: "string option"
  REFRESH_TOKEN_SECRET :: "string option"
  sql_eq :: "js \<Rightarrow> js \<Rightarrow> bool"
  dirname :: string

section \<open>Responses\<close>

datatype joi_error =
    Required string
  | NotAString string
  | EmptyString string
  | InvalidEmail string
  | WrongLength string nat
  | TooShort string nat

record pagination =
  totalFiles :: int
  totalPages :: int
  currentPage :: int
  pageSize :: int

text \<open>
  The body of a response: the reason phrase \<^verbatim>\<open>sendStatus\<close> writes, one of the JSON
  objects the handlers build, or the file \<^verbatim>\<open>sendFile\<close> streams.
\<close>

datatype body =
    StatusText
  | Message string
  | Error string
  | ValidationError joi_error
  | Tokens string string
  | AccessToken js
  | FileList query_object pagination
  | FileStream string

text \<open>The headers are the ones the handler sets itself with \<^verbatim>\<open>setHeader\<close>.\<close>

record response =
  status :: nat
  headers :: "(string \<times> js) list"
  body :: body

definition sendStatus :: "nat \<Rightarrow> response" where
  "sendStatus code = \<lparr>status = code, headers = [], body = StatusText\<rparr>"

definition json :: "nat \<Rightarrow> body \<Rightarrow> response" where
  "json code b = \<lparr>status = code, headers = [], body = b\<rparr>"

section \<open>Signup\<close>

text \<open>
  \<^verbatim>\<open>registrationSchema\<close>: every key is \<^verbatim>\<open>Joi.string().required()\<close>, with one
  further rule on three of them. Joi checks the keys in the order of the schema and
  stops at the first error.
\<close>

datatype rule = Email | Length nat | Min nat

definition registrationSchema :: "(string \<times> rule list) list" where
  "registrationSchema =
     [(''firstName'', []),
      (''lastName'', []),
      (''email'', [Email]),
      (''phoneNumber'', [Length 12]),
      (''password'', [Min 5])]"

fun check_rule :: "env \<Rightarrow> string \<Rightarrow> string \<Rightarrow> rule \<Rightarrow> joi_error option" where
  "check_rule E k s Email = (if email_rule E s then None else Some (InvalidEmail k))"
| "check_rule E k s (Length n) = (if length s = n then None else Some (WrongLength k n))"
| "check_rule E k s (Min n) = (if n \<le> length s then None else Some (TooShort k n))"

fun check_rules :: "env \<Rightarrow> string \<Rightarrow> string \<Rightarrow> rule list \<Rightarrow> joi_error option" where
  "check_rules E k s [] = None"
| "check_rules E k s (r # rs) =
     (case check_rule E k s r of Some e \<Rightarrow> Some e | None \<Rightarrow> check_rules E k s rs)"

fun check_key :: "env \<Rightarrow> string \<Rightarrow> rule list \<Rightarrow> js \<Rightarrow> joi_error option" where
  "check_key E k rs Undefined = Some (Required k)"
| "check_key E k rs (JStr s) = (if s = [] then Some (EmptyString k) else check_rules E k s rs)"
| "check_key E k rs v = Some (NotAString k)"

fun validate :: "env \<Rightarrow> (string \<times> rule list) list \<Rightarrow> obj \<Rightarrow> joi_error option" where
  "validate E [] ob = None"
| "validate E ((k, rs) # schema) ob =
     (case check_key E k rs (get ob k) of
        Some e \<Rightarrow> Some e
      | None \<Rightarrow> validate E schema ob)"

definition next_user_id :: "state \<Rightarrow> nat" where
  "next_user_id st = Suc (foldr max (map user_id (users st)) 0)"

text \<open>
  \<^verbatim>\<open>pool.query(query, values)\<close> with no callback: the handler does not learn whether
  the insert failed.
\<close>

definition insert_user :: "js \<Rightarrow> js \<Rightarrow> js \<Rightarrow> js \<Rightarrow> state \<Rightarrow> state" where
  "insert_user firstName lastName mail hashedPassword st =
     (let (ok, st1) = db_call st in
      if ok then
        st1\<lparr>users := users st1 @
          [\<lparr>user_id = next_user_id st1, first_name = firstName, last_name = lastName,
            email = mail, phone_number = Null, password = hashedPassword\<rparr>]\<rparr>
      else st1)"

definition signup :: "env \<Rightarrow> obj \<Rightarrow> state \<Rightarrow> response \<times> state" where
  "signup E reqBody st =
     (let firstName = get reqBody ''firstName'';
          lastName = get reqBody ''lastName'';
          mail = get reqBody ''email'';
          pw = get reqBody ''password''
      in case validate E registrationSchema
                [''firstName'' \<mapsto> firstName, ''lastName'' \<mapsto> lastName,
                 ''email'' \<mapsto> mail, ''password'' \<mapsto> pw] of
           Some err \<Rightarrow> (json 400 (ValidationError err), st)
         | None \<Rightarrow>
             (case bcrypt_hash E pw 10 of
                None \<Rightarrow> (json 500 (Error ''Error during user registration''), st)
              | Some hashedPassword \<Rightarrow>
                  (json 200 (Message ''User registered successfully''),
                   insert_user firstName lastName mail (JStr hashedPassword) st)))"

section \<open>Token refresh and logout\<close>

text \<open>
  \<^verbatim>\<open>refreshTokens.includes(refreshToken)\<close>: the array holds only the strings that
  signin pushed, so a value that is not a string is never found in it.
\<close>

definition includes_js :: "string list \<Rightarrow> js \<Rightarrow> bool" where
  "includes_js xs v = (case v of JStr s \<Rightarrow> s \<in> set xs | _ \<Rightarrow> False)"

text \<open>
  \<^verbatim>\<open>POST /signin/new_token\<close>. \<^verbatim>\<open>refreshToken == null\<close> holds of
  \<^verbatim>\<open>undefined\<close> and of \<^verbatim>\<open>null\<close>. The payload handed to
  \<^verbatim>\<open>generateAccessToken\<close> is \<^verbatim>\<open>{ name: user.name }\<close>.
\<close>

definition new_token :: "env \<Rightarrow> obj \<Rightarrow> state \<Rightarrow> response \<times> state" where
  "new_token E reqBody st =
     (let refreshToken = get reqBody ''token'' in
      if refreshToken = Undefined \<or> refreshToken = Null then (sendStatus 401, st)
      else if includes_js (refreshTokens st) refreshToken then
        (case jwt_verify E refreshToken (REFRESH_TOKEN_SECRET E) of
           None \<Rightarrow> (sendStatus 403, st)
         | Some user \<Rightarrow>
             (json 200 (AccessToken (generateAccessToken E [''name'' \<mapsto> get user ''name''])), st))
      else (sendStatus 403, st))"

text \<open>\<^verbatim>\<open>DELETE /logout\<close>.\<close>

definition logout :: "obj \<Rightarrow> state \<Rightarrow> response \<times> state" where
  "logout reqBody st =
     (sendStatus 204,
      st\<lparr>refreshTokens := filter (\<lambda>token. JStr token \<noteq> get reqBody ''token'') (refreshTokens st)\<rparr>)"

section \<open>Signin\<close>

definition select_users :: "env \<Rightarrow> js \<Rightarrow> user_row list \<Rightarrow> user_row list" where
  "select_users E identifier rows =
     filter (\<lambda>u. sql_eq E (email u) identifier \<or> sql_eq E (phone_number u) identifier) rows"

text \<open>
  \<^verbatim>\<open>POST /users/signin\<close>. A rejected \<^verbatim>\<open>bcrypt.compare\<close> and a throwing
  \<^verbatim>\<open>jwt.sign\<close> both land in the \<^verbatim>\<open>catch\<close>.
\<close>

definition signin :: "env \<Rightarrow> obj \<Rightarrow> state \<Rightarrow> response \<times> state" where
  "signin E reqBody st =
     (let identifier = get reqBody ''identifier'';
          pw = get reqBody ''password'';
          (ok, st1) = db_call st
      in if ok then
           (case select_users E identifier (users st1) of
              [] \<Rightarrow> (json 401 (Error ''Invalid credentials''), st1)
            | user # _ \<Rightarrow>
                (case bcrypt_compare E pw (password user) of
                   None \<Rightarrow> (json 500 (Error ''Internal server error''), st1)
                 | Some isPasswordValid \<Rightarrow>
                     if \<not> isPasswordValid then (json 401 (Error ''Invalid credentials''), st1)
                     else
                       (case jwt_sign E [''userId'' \<mapsto> JNum (int (user_id user))]
                               (ACCESS_SECRET_TOKEN E) ''10m'' of
                          None \<Rightarrow> (json 500 (Error ''Internal server error''), st1)
                        | Some accessToken \<Rightarrow>
                            (case jwt_sign E [''userId'' \<mapsto> JNum (int (user_id user))]
                                    (REFRESH_TOKEN_SECRET E) ''7d'' of
                               None \<Rightarrow> (json 500 (Error ''Internal server error''), st1)
                             | Some refreshToken \<Rightarrow>
                                 (json 200 (Tokens accessToken refreshToken),
                                  st1\<lparr>refreshTokens := refreshTokens st1 @ [refreshToken]\<rparr>)))))
         else (json 500 (Error ''Internal server error''), st1))"

section \<open>Listing files\<close>

text \<open>
  A value of \<^verbatim>\<open>req.query\<close>: a string, an array (a repeated parameter) or an object
  (a bracketed parameter). \<^verbatim>\<open>parseInt\<close> first turns its argument into a string; an
  absent parameter is \<^verbatim>\<open>undefined\<close> and reads as the string of that name.
\<close>

datatype qval = QStr string | QArr "qval list" | QObj "(string \<times> qval) list"

type_synonym query = "string \<rightharpoonup> qval"

fun join_comma :: "string list \<Rightarrow> string" where
  "join_comma [] = []"
| "join_comma [x] = x"
| "join_comma (x # y # zs) = x @ '','' @ join_comma (y # zs)"

fun qstring :: "qval \<Rightarrow> string" where
  "qstring (QStr s) = s"
| "qstring (QArr vs) = join_comma (map qstring vs)"
| "qstring (QObj kvs) = ''[object Object]''"

definition param_string :: "qval option \<Rightarrow> string" where
  "param_string v = (case v of None \<Rightarrow> ''undefined'' | Some x \<Rightarrow> qstring x)"

definition is_space :: "char \<Rightarrow> bool" where
  "is_space c = ((of_char c :: nat) \<in> set [9, 10, 11, 12, 13, 32, 160])"

definition digit_of :: "char \<Rightarrow> nat option" where
  "digit_of c =
     (let n = (of_char c :: nat) in
      if 48 \<le> n \<and> n \<le> 57 then Some (n - 48)
      else if 97 \<le> n \<and> n \<le> 122 then Some (n - 87)
      else if 65 \<le> n \<and> n \<le> 90 then Some (n - 55)
      else None)"

definition is_digit :: "nat \<Rightarrow> char \<Rightarrow> bool" where
  "is_digit radix c = (case digit_of c of None \<Rightarrow> False | Some d \<Rightarrow> d < radix)"

definition digit_val :: "char \<Rightarrow> int" where
  "digit_val c = (case digit_of c of None \<Rightarrow> 0 | Some d \<Rightarrow> int d)"

fun strip_sign :: "string \<Rightarrow> bool \<times> string" where
  "strip_sign (c # cs) =
     (if c = CHR ''-'' then (True, cs) else if c = CHR ''+'' then (False, cs) else (False, c # cs))"
| "strip_sign [] = (False, [])"

fun strip_radix :: "string \<Rightarrow> nat \<times> string" where
  "strip_radix (c # d # cs) =
     (if c = CHR ''0'' \<and> (d = CHR ''x'' \<or> d = CHR ''X'') then (16, cs) else (10, c # d # cs))"
| "strip_radix cs = (10, cs)"

text \<open>
  \<^verbatim>\<open>parseInt(string)\<close> with no radix: leading white space, a sign, a hexadecimal
  prefix, then the longest run of digits; \<open>None\<close> is \<^verbatim>\<open>NaN\<close>. The result is the
  integer the digits denote. The handler holds it rounded to a double, which is
  \<^verbatim>\<open>NaN\<close> or zero exactly when this result is \<open>None\<close> or \<open>Some 0\<close>, and is the
  same number below \<open>2^53\<close>.
\<close>

definition parseInt :: "string \<Rightarrow> int option" where
  "parseInt inputString =
     (let (neg, s) = strip_sign (dropWhile is_space inputString);
          (radix, z) = strip_radix s;
          ds = takeWhile (is_digit radix) z
      in if ds = [] then None
         else Some ((if neg then - 1 else 1) *
                    foldl (\<lambda>acc c. acc * int radix + digit_val c) 0 ds))"

text \<open>\<^verbatim>\<open>x || d\<close> on a number: \<^verbatim>\<open>NaN\<close> and \<open>0\<close> are falsy.\<close>

definition or_default :: "int option \<Rightarrow> int \<Rightarrow> int" where
  "or_default v d = (case v of None \<Rightarrow> d | Some n \<Rightarrow> if n = 0 then d else n)"

definition list_pageSize :: "query \<Rightarrow> int" where
  "list_pageSize q = or_default (parseInt (param_string (q ''list_size''))) 10"

definition list_page :: "query \<Rightarrow> int" where
  "list_page q = or_default (parseInt (param_string (q ''page''))) 1"

text \<open>The row of \<^verbatim>\<open>SELECT COUNT(*) AS total FROM files\<close>.\<close>

record count_row =
  total :: int

text \<open>
  \<^verbatim>\<open>GET /file/list\<close>. \<^verbatim>\<open>totalCountResult[0].total\<close> reads a property of
  \<^verbatim>\<open>undefined\<close> when the result has no element 0; the \<^verbatim>\<open>TypeError\<close> lands in
  the \<^verbatim>\<open>catch\<close>. Past that line the handler would send the second query and answer
  with what it awaited.
\<close>

definition file_list :: "query \<Rightarrow> state \<Rightarrow> response \<times> state" where
  "file_list q st =
     (let pageSize = list_pageSize q;
          page = list_page q;
          offset = (page - 1) * pageSize;
          (totalCountResult, st1) =
            pool_query_await [\<lparr>total = int (length (files st))\<rparr>] st
      in case (element0 totalCountResult :: count_row option) of
           None \<Rightarrow> (json 500 (Error ''Error retrieving files from database''), st1)
         | Some countRow \<Rightarrow>
             (let totalCount = total countRow;
                  (rows, st2) =
                    pool_query_await (take (nat pageSize) (drop (nat offset) (files st1))) st1
              in (json 200
                    (FileList rows
                       \<lparr>totalFiles = totalCount,
                        totalPages = \<lceil>(of_int totalCount :: rat) / of_int pageSize\<rceil>,
                        currentPage = page,
                        pageSize = pageSize\<rparr>),
                  st2)))"

section \<open>Download and update\<close>

text \<open>\<^verbatim>\<open>WHERE id = ?\<close> with the route parameter, a string.\<close>

definition id_matches :: "env \<Rightarrow> string \<Rightarrow> file_row \<Rightarrow> bool" where
  "id_matches E fileId f = sql_eq E (JNum (int (file_id f))) (JStr fileId)"

definition select_file :: "env \<Rightarrow> string \<Rightarrow> file_row list \<Rightarrow> file_row list" where
  "select_file E fileId rows = filter (id_matches E fileId) rows"

text \<open>
  \<^verbatim>\<open>path.join\<close> on strings, without the normalisation of dot segments (stored names
  are single segments).
\<close>

fun path_join :: "string list \<Rightarrow> string" where
  "path_join [] = ''.''"
| "path_join [x] = x"
| "path_join (x # y # zs) = x @ ''/'' @ path_join (y # zs)"

definition log_io :: "io_event \<Rightarrow> state \<Rightarrow> state" where
  "log_io e st = st\<lparr>io_log := io_log st @ [e]\<rparr>"

text \<open>
  \<^verbatim>\<open>GET /file/download/:id\<close>. \<^verbatim>\<open>const file = result[0]\<close>, and
  \<^verbatim>\<open>!file\<close> holds of \<^verbatim>\<open>undefined\<close>. Past that test, \<^verbatim>\<open>path.join\<close> throws
  on an argument that is not a string and \<^verbatim>\<open>res.setHeader\<close> throws on the value
  \<^verbatim>\<open>undefined\<close>; both land in the \<^verbatim>\<open>catch\<close>, which answers 500 on the response
  as it stands, with the headers set so far.
\<close>

definition download :: "env \<Rightarrow> string \<Rightarrow> state \<Rightarrow> response \<times> state" where
  "download E fileId st =
     (let (result, st1) = pool_query_await (select_file E fileId (files st)) st
      in case element0 result of
           None \<Rightarrow> (json 404 (Error ''File not found''), st1)
         | Some file \<Rightarrow>
             (case file_prop file ''filename'' of
                JStr storedName \<Rightarrow>
                  (let filePath = path_join [dirname E, ''uploads'', storedName];
                       st2 = log_io (PathJoin filePath) st1;
                       hs = [(''Content-Disposition'', JStr (''attachment; filename='' @ storedName))]
                   in case file_prop file ''mimeType'' of
                        Undefined \<Rightarrow>
                          (\<lparr>status = 500, headers = hs, body = Error ''Error downloading file''\<rparr>, st2)
                      | contentType \<Rightarrow>
                          (\<lparr>status = 200, headers = hs @ [(''Content-Type'', contentType)],
                            body = FileStream filePath\<rparr>,
                           log_io (SendFile filePath) st2))
              | _ \<Rightarrow> (json 500 (Error ''Error downloading file''), st1)))"

text \<open>
  \<^verbatim>\<open>PUT /file/update/:id\<close>. \<open>reqFile\<close> is \<^verbatim>\<open>req.file.filename\<close>, the name the
  disk storage generated for the attachment, or \<open>None\<close> when the request carried no
  attachment (\<^verbatim>\<open>req.file\<close> is \<^verbatim>\<open>undefined\<close> and reading its property throws).
  \<^verbatim>\<open>fs.unlink\<close> reports its failure to a callback that only logs it.
\<close>

definition update_file :: "env \<Rightarrow> string \<Rightarrow> string option \<Rightarrow> state \<Rightarrow> response \<times> state" where
  "update_file E fileId reqFile st =
     (let (result, st1) = pool_query_await (select_file E fileId (files st)) st
      in case element0 result of
           None \<Rightarrow> (json 404 (Error ''File not found''), st1)
         | Some file \<Rightarrow>
             (case file_prop file ''filename'' of
                JStr storedName \<Rightarrow>
                  (let filePath = path_join [dirname E, ''uploads'', storedName];
                       st2 = log_io (Unlink filePath) (log_io (PathJoin filePath) st1)
                   in case reqFile of
                        None \<Rightarrow> (json 500 (Error ''Error updating file''), st2)
                      | Some newFilename \<Rightarrow>
                          (let (updated, st3) =
                                 pool_update_await
                                   (map (\<lambda>f. if id_matches E fileId f
                                             then f\<lparr>filename := JStr newFilename\<rparr> else f))
                                   st2
                           in (json 200 (Message ''File updated successfully''), st3)))
              | _ \<Rightarrow> (json 500 (Error ''Error updating file''), st1)))"

text \<open>The next \<open>n\<close> database queries are answered without an error.\<close>

definition next_queries_succeed :: "nat \<Rightarrow> state \<Rightarrow> bool" where
  "next_queries_succeed n st = list_all Not (take n (db_faults st))"

section \<open>Sample collaborators, requests and tables\<close>

text \<open>
  One instance of the collaborators and a few requests and tables, on which the handlers
  are run below. The sample database compares an integer column with a string by the
  number the string starts with, and anything else by equality. The sample bcrypt
  rejects data that is not a string, as the library does.
\<close>

definition sample_env :: env where
  "sample_env =
     \<lparr>email_rule = (\<lambda>s. CHR ''@'' \<in> set s),
      bcrypt_hash = (\<lambda>v rounds. case v of JStr s \<Rightarrow> Some (''$2b$'' @ s) | _ \<Rightarrow> None),
      bcrypt_compare = (\<lambda>v h. case v of JStr s \<Rightarrow> Some (h = JStr (''$2b$'' @ s)) | _ \<Rightarrow> None),
      jwt_sign = (\<lambda>claims secret expiresIn.
         case secret of None \<Rightarrow> None | Some k \<Rightarrow> Some (k @ ''.'' @ expiresIn)),
      jwt_verify = (\<lambda>token secret.
         case secret of
           None \<Rightarrow> None
         | Some k \<Rightarrow> if token = JStr (k @ ''.7d'') then Some [''userId'' \<mapsto> JNum 1] else None),
      generateAccessToken = (\<lambda>claims. JStr ''access''),
      ACCESS_SECRET_TOKEN = Some ''a'',
      REFRESH_TOKEN_SECRET = Some ''r'',
      sql_eq = (\<lambda>col v.
         case col of
           JNum n \<Rightarrow> (case v of JStr s \<Rightarrow> parseInt s = Some n | _ \<Rightarrow> col = v)
         | _ \<Rightarrow> col = v),
      dirname = ''/app''\<rparr>"

definition valid_signup_body :: obj where
  "valid_signup_body =
     [''firstName'' \<mapsto> JStr ''Ada'', ''lastName'' \<mapsto> JStr ''Lovelace'',
      ''email'' \<mapsto> JStr ''ada@example.com'', ''phoneNumber'' \<mapsto> JStr ''+37455123456'',
      ''password'' \<mapsto> JStr ''secret'']"

definition empty_state :: state where
  "empty_state = \<lparr>users = [], files = [], refreshTokens = [], io_log = [], db_faults = []\<rparr>"

definition stored_file :: file_row where
  "stored_file =
     \<lparr>file_id = 1, name = JStr ''report'', extension = JStr ''.pdf'',
      mime_type = JStr ''application/pdf'', size_col = JNum 1024,
      filename = JStr ''1700000000000-123456789.pdf''\<rparr>"

definition stale_state :: state where
  "stale_state = empty_state\<lparr>refreshTokens := [''stale'']\<rparr>"

definition sample_user :: user_row where
  "sample_user =
     \<lparr>user_id = 1, first_name = JStr ''Ada'', last_name = JStr ''Lovelace'',
      email = JStr ''ada@example.com'', phone_number = Null, password = JStr ''$2b$secret''\<rparr>"

definition numbered_file :: "nat \<Rightarrow> file_row" where
  "numbered_file i =
     \<lparr>file_id = i, name = JStr ''scan'', extension = JStr ''.png'',
      mime_type = JStr ''image/png'', size_col = JNum 2048, filename = Null\<rparr>"

definition twenty_five_files :: state where
  "twenty_five_files = empty_state\<lparr>files := map numbered_file [1..<26]\<rparr>"

definition two_tokens_state :: state where
  "two_tokens_state = empty_state\<lparr>refreshTokens := [''r.7d'', ''other.7d'']\<rparr>"

definition stored_files_state :: state where
  "stored_files_state = empty_state\<lparr>files := [numbered_file 7, stored_file]\<rparr>"

section \<open>Properties\<close>

subsection \<open>The database schedule and the trace\<close>

lemma db_call_users [simp]: "users (snd (db_call st)) = users st"
  by (simp add: db_call_def split: list.splits)

lemma db_call_files [simp]: "files (snd (db_call st)) = files st"
  by (simp add: db_call_def split: list.splits)

lemma db_call_refreshTokens [simp]: "refreshTokens (snd (db_call st)) = refreshTokens st"
  by (simp add: db_call_def split: list.splits)

lemma db_call_io_log [simp]: "io_log (snd (db_call st)) = io_log st"
  by (simp add: db_call_def split: list.splits)

lemma db_call_succeeds: "next_queries_succeed (Suc n) st \<Longrightarrow> fst (db_call st)"
  by (cases "db_faults st") (simp_all add: next_queries_succeed_def db_call_def)

subsection \<open>Signup\<close>

lemma validate_without_phoneNumber:
  "ob ''phoneNumber'' = None \<Longrightarrow> validate E registrationSchema ob \<noteq> None"
  by (simp add: registrationSchema_def get_def split: option.splits)

text \<open>
  C1. The signup handler hands Joi an object built from \<^verbatim>\<open>firstName\<close>,
  \<^verbatim>\<open>lastName\<close>, \<^verbatim>\<open>email\<close> and \<^verbatim>\<open>password\<close> only, while the schema
  requires \<^verbatim>\<open>phoneNumber\<close>. So every request is answered 400 with a validation error
  and the state is left as it was; for a body that satisfies the schema the error is that
  \<^verbatim>\<open>phoneNumber\<close> is required. No user row is inserted.
\<close>

theorem signup_rejects_valid_body:
  "(\<exists>err. signup E reqBody st = (json 400 (ValidationError err), st)) \<and>
   signup sample_env valid_signup_body st = (json 400 (ValidationError (Required ''phoneNumber'')), st)"
proof
  have "validate E registrationSchema
          [''firstName'' \<mapsto> get reqBody ''firstName'', ''lastName'' \<mapsto> get reqBody ''lastName'',
           ''email'' \<mapsto> get reqBody ''email'', ''password'' \<mapsto> get reqBody ''password''] \<noteq> None"
    by (rule validate_without_phoneNumber) simp
  then show "\<exists>err. signup E reqBody st = (json 400 (ValidationError err), st)"
    by (auto simp: signup_def Let_def)
next
  show "signup sample_env valid_signup_body st =
          (json 400 (ValidationError (Required ''phoneNumber'')), st)"
    by (simp add: signup_def valid_signup_body_def registrationSchema_def get_def sample_env_def)
qed

subsection \<open>Token refresh\<close>

text \<open>
  C2. For a registered refresh token that verifies to the payload \<^verbatim>\<open>{userId: uid}\<close>,
  the refresh handler answers 200 with whatever \<^verbatim>\<open>generateAccessToken\<close> makes of the
  payload \<^verbatim>\<open>{name: undefined}\<close>: the answer is the same for every \<open>uid\<close>, so the new
  access token is not bound to the user identity the refresh token carries.
\<close>

theorem new_token_ignores_userId:
  "new_token (E\<lparr>jwt_verify := \<lambda>token secret. Some [''userId'' \<mapsto> JNum uid]\<rparr>)
      [''token'' \<mapsto> JStr t] (st\<lparr>refreshTokens := [t]\<rparr>) =
   (json 200 (AccessToken (generateAccessToken E [''name'' \<mapsto> Undefined])),
    st\<lparr>refreshTokens := [t]\<rparr>)"
  by (simp add: new_token_def get_def includes_js_def)

text \<open>
  C4. Token refresh: a missing token (\<^verbatim>\<open>undefined\<close> or \<^verbatim>\<open>null\<close>) is answered 401; a
  token that is not in the registry is answered 403; a token in the registry that fails
  verification is answered 403. The state is unchanged in all three cases.
\<close>

theorem new_token_error_statuses:
  "(get reqBody ''token'' = Undefined \<or> get reqBody ''token'' = Null \<longrightarrow>
      new_token E reqBody st = (sendStatus 401, st)) \<and>
   (get reqBody ''token'' \<noteq> Undefined \<and> get reqBody ''token'' \<noteq> Null \<and>
    \<not> includes_js (refreshTokens st) (get reqBody ''token'') \<longrightarrow>
      new_token E reqBody st = (sendStatus 403, st)) \<and>
   (includes_js (refreshTokens st) (get reqBody ''token'') \<and>
    jwt_verify E (get reqBody ''token'') (REFRESH_TOKEN_SECRET E) = None \<longrightarrow>
      new_token E reqBody st = (sendStatus 403, st))"
  by (auto simp: new_token_def Let_def includes_js_def)

theorem new_token_error_statuses_witness:
  "get Map.empty ''token'' = Undefined \<and>
   new_token sample_env Map.empty empty_state = (sendStatus 401, empty_state) \<and>
   \<not> includes_js (refreshTokens empty_state) (get [''token'' \<mapsto> JStr ''never''] ''token'') \<and>
   new_token sample_env [''token'' \<mapsto> JStr ''never''] empty_state = (sendStatus 403, empty_state) \<and>
   includes_js (refreshTokens stale_state) (get [''token'' \<mapsto> JStr ''stale''] ''token'') \<and>
   jwt_verify sample_env (get [''token'' \<mapsto> JStr ''stale''] ''token'')
     (REFRESH_TOKEN_SECRET sample_env) = None \<and>
   new_token sample_env [''token'' \<mapsto> JStr ''stale''] stale_state = (sendStatus 403, stale_state)"
proof -
  have a: "get Map.empty ''token'' = Undefined"
    by (simp add: get_def)
  have b: "get [''token'' \<mapsto> JStr ''never''] ''token'' \<noteq> Undefined \<and>
           get [''token'' \<mapsto> JStr ''never''] ''token'' \<noteq> Null \<and>
           \<not> includes_js (refreshTokens empty_state) (get [''token'' \<mapsto> JStr ''never''] ''token'')"
    by (simp add: get_def includes_js_def empty_state_def)
  have c: "includes_js (refreshTokens stale_state) (get [''token'' \<mapsto> JStr ''stale''] ''token'') \<and>
           jwt_verify sample_env (get [''token'' \<mapsto> JStr ''stale''] ''token'')
             (REFRESH_TOKEN_SECRET sample_env) = None"
    by (simp add: get_def includes_js_def stale_state_def sample_env_def)
  show ?thesis
    using a b c
      new_token_error_statuses [where reqBody = Map.empty and E = sample_env and st = empty_state]
      new_token_error_statuses [where reqBody = "[''token'' \<mapsto> JStr ''never'']" and E = sample_env
        and st = empty_state]
      new_token_error_statuses [where reqBody = "[''token'' \<mapsto> JStr ''stale'']" and E = sample_env
        and st = stale_state]
    by simp
qed

subsection \<open>Signin\<close>

text \<open>
  C5. A signin whose identifier selects no user row is answered 401 with the body
  \<^verbatim>\<open>{error: 'Invalid credentials'}\<close>. A signin whose identifier selects a user gets
  the same response, and registers no refresh token, when \<^verbatim>\<open>bcrypt.compare\<close> resolves
  to false; when \<^verbatim>\<open>bcrypt.compare\<close> rejects, it is answered 500 with the body
  \<^verbatim>\<open>{error: 'Internal server error'}\<close> instead.
\<close>

theorem signin_failures_identical:
  assumes "next_queries_succeed 1 st1"
    and "select_users E (get b1 ''identifier'') (users st1) = []"
    and "next_queries_succeed 1 st2"
    and "select_users E (get b2 ''identifier'') (users st2) = u # us"
  shows "fst (signin E b1 st1) = json 401 (Error ''Invalid credentials'') \<and>
         refreshTokens (snd (signin E b1 st1)) = refreshTokens st1 \<and>
         (bcrypt_compare E (get b2 ''password'') (password u) = Some False \<longrightarrow>
            fst (signin E b2 st2) = fst (signin E b1 st1) \<and>
            refreshTokens (snd (signin E b2 st2)) = refreshTokens st2) \<and>
         (bcrypt_compare E (get b2 ''password'') (password u) = None \<longrightarrow>
            fst (signin E b2 st2) = json 500 (Error ''Internal server error'') \<and>
            refreshTokens (snd (signin E b2 st2)) = refreshTokens st2)"
proof -
  have ok1: "fst (db_call st1)" and ok2: "fst (db_call st2)"
    using assms(1,3) by (simp_all add: db_call_succeeds)
  have r1: "signin E b1 st1 = (json 401 (Error ''Invalid credentials''), snd (db_call st1))"
    using ok1 assms(2) by (simp add: signin_def Let_def split_beta)
  have r2: "bcrypt_compare E (get b2 ''password'') (password u) = Some False \<Longrightarrow>
            signin E b2 st2 = (json 401 (Error ''Invalid credentials''), snd (db_call st2))"
    using ok2 assms(4) by (simp add: signin_def Let_def split_beta)
  have r3: "bcrypt_compare E (get b2 ''password'') (password u) = None \<Longrightarrow>
            signin E b2 st2 = (json 500 (Error ''Internal server error''), snd (db_call st2))"
    using ok2 assms(4) by (simp add: signin_def Let_def split_beta)
  show ?thesis using r1 r2 r3 by simp
qed

theorem signin_failures_identical_witness:
  "next_queries_succeed 1 (empty_state\<lparr>users := [sample_user]\<rparr>) \<and>
   select_users sample_env (get [''identifier'' \<mapsto> JStr ''bob@example.com'', ''password'' \<mapsto> JStr ''secret''] ''identifier'')
     (users (empty_state\<lparr>users := [sample_user]\<rparr>)) = [] \<and>
   select_users sample_env (get [''identifier'' \<mapsto> JStr ''ada@example.com'', ''password'' \<mapsto> JStr ''guess''] ''identifier'')
     (users (empty_state\<lparr>users := [sample_user]\<rparr>)) = [sample_user] \<and>
   bcrypt_compare sample_env (get [''identifier'' \<mapsto> JStr ''ada@example.com'', ''password'' \<mapsto> JStr ''guess''] ''password'')
     (password sample_user) = Some False \<and>
   fst (signin sample_env [''identifier'' \<mapsto> JStr ''bob@example.com'', ''password'' \<mapsto> JStr ''secret'']
          (empty_state\<lparr>users := [sample_user]\<rparr>)) = json 401 (Error ''Invalid credentials'') \<and>
   fst (signin sample_env [''identifier'' \<mapsto> JStr ''ada@example.com'', ''password'' \<mapsto> JStr ''guess'']
          (empty_state\<lparr>users := [sample_user]\<rparr>)) =
   fst (signin sample_env [''identifier'' \<mapsto> JStr ''bob@example.com'', ''password'' \<mapsto> JStr ''secret'']
          (empty_state\<lparr>users := [sample_user]\<rparr>)) \<and>
   select_users sample_env (get [''identifier'' \<mapsto> JStr ''ada@example.com''] ''identifier'')
     (users (empty_state\<lparr>users := [sample_user]\<rparr>)) = [sample_user] \<and>
   bcrypt_compare sample_env (get [''identifier'' \<mapsto> JStr ''ada@example.com''] ''password'')
     (password sample_user) = None \<and>
   fst (signin sample_env [''identifier'' \<mapsto> JStr ''ada@example.com'']
          (empty_state\<lparr>users := [sample_user]\<rparr>)) = json 500 (Error ''Internal server error'')"
proof -
  let ?st = "empty_state\<lparr>users := [sample_user]\<rparr>"
  let ?b1 = "[''identifier'' \<mapsto> JStr ''bob@example.com'', ''password'' \<mapsto> JStr ''secret'']"
  let ?b2 = "[''identifier'' \<mapsto> JStr ''ada@example.com'', ''password'' \<mapsto> JStr ''guess'']"
  let ?b3 = "[''identifier'' \<mapsto> JStr ''ada@example.com'']"
  have q: "next_queries_succeed 1 ?st"
    by (simp add: next_queries_succeed_def empty_state_def)
  have n: "select_users sample_env (get ?b1 ''identifier'') (users ?st) = []"
    by (simp add: select_users_def get_def sample_env_def sample_user_def)
  have m: "select_users sample_env (get ?b2 ''identifier'') (users ?st) = [sample_user]"
    by (simp add: select_users_def get_def sample_env_def sample_user_def)
  have m3: "select_users sample_env (get ?b3 ''identifier'') (users ?st) = [sample_user]"
    by (simp add: select_users_def get_def sample_env_def sample_user_def)
  have w: "bcrypt_compare sample_env (get ?b2 ''password'') (password sample_user) = Some False"
    by (simp add: get_def sample_env_def sample_user_def)
  have w3: "bcrypt_compare sample_env (get ?b3 ''password'') (password sample_user) = None"
    by (simp add: get_def sample_env_def sample_user_def)
  show ?thesis
    using q n m m3 w w3
      signin_failures_identical [OF q n q m]
      signin_failures_identical [OF q n q m3]
    by simp
qed

text \<open>
  For the stored user, a request that names her e-mail address and carries no password is
  answered 500, while the same request under an unknown address is answered 401: the two
  responses tell a known identifier from an unknown one.
\<close>

theorem signin_missing_password_counterexample:
  "select_users sample_env (get [''identifier'' \<mapsto> JStr ''bob@example.com''] ''identifier'')
     (users (empty_state\<lparr>users := [sample_user]\<rparr>)) = [] \<and>
   select_users sample_env (get [''identifier'' \<mapsto> JStr ''ada@example.com''] ''identifier'')
     (users (empty_state\<lparr>users := [sample_user]\<rparr>)) = [sample_user] \<and>
   bcrypt_compare sample_env (get [''identifier'' \<mapsto> JStr ''ada@example.com''] ''password'')
     (password sample_user) \<noteq> Some True \<and>
   fst (signin sample_env [''identifier'' \<mapsto> JStr ''bob@example.com'']
          (empty_state\<lparr>users := [sample_user]\<rparr>)) = json 401 (Error ''Invalid credentials'') \<and>
   fst (signin sample_env [''identifier'' \<mapsto> JStr ''ada@example.com'']
          (empty_state\<lparr>users := [sample_user]\<rparr>)) = json 500 (Error ''Internal server error'') \<and>
   fst (signin sample_env [''identifier'' \<mapsto> JStr ''ada@example.com'']
          (empty_state\<lparr>users := [sample_user]\<rparr>)) \<noteq>
   fst (signin sample_env [''identifier'' \<mapsto> JStr ''bob@example.com'']
          (empty_state\<lparr>users := [sample_user]\<rparr>))"
  by (simp add: signin_def db_call_def select_users_def get_def sample_env_def sample_user_def
        empty_state_def json_def)

subsection \<open>Logout\<close>

text \<open>
  C7. Logout answers 204 whatever the body holds. Afterwards the registry holds exactly
  the tokens it held before other than the token of the body, and nothing else of the
  state has changed; when the token was not in the registry, the state is unchanged. A
  refresh request that presents a token (a value other than \<^verbatim>\<open>undefined\<close> and
  \<^verbatim>\<open>null\<close>) after its logout is answered 403.
\<close>

theorem logout_revokes_token:
  "fst (logout reqBody st) = sendStatus 204 \<and>
   \<not> includes_js (refreshTokens (snd (logout reqBody st))) (get reqBody ''token'') \<and>
   set (refreshTokens (snd (logout reqBody st))) =
     set (refreshTokens st) - {s. JStr s = get reqBody ''token''} \<and>
   snd (logout reqBody st) = st\<lparr>refreshTokens := refreshTokens (snd (logout reqBody st))\<rparr> \<and>
   (\<not> includes_js (refreshTokens st) (get reqBody ''token'') \<longrightarrow> snd (logout reqBody st) = st) \<and>
   (get reqBody ''token'' \<noteq> Undefined \<and> get reqBody ''token'' \<noteq> Null \<longrightarrow>
      fst (new_token E reqBody (snd (logout reqBody st))) = sendStatus 403)"
proof -
  let ?t = "get reqBody ''token''"
  let ?st' = "snd (logout reqBody st)"
  have gone: "\<not> includes_js (refreshTokens ?st') ?t"
    by (simp add: logout_def includes_js_def split: js.splits)
  have rest: "set (refreshTokens ?st') = set (refreshTokens st) - {s. JStr s = ?t}"
    by (auto simp: logout_def)
  have frame: "?st' = st\<lparr>refreshTokens := refreshTokens ?st'\<rparr>"
    by (simp add: logout_def)
  have same: "\<not> includes_js (refreshTokens st) ?t \<Longrightarrow> ?st' = st"
  proof -
    assume absent: "\<not> includes_js (refreshTokens st) ?t"
    have "filter (\<lambda>token. JStr token \<noteq> ?t) (refreshTokens st) = refreshTokens st"
      using absent by (auto simp: includes_js_def filter_id_conv split: js.splits)
    then show "?st' = st" by (simp add: logout_def)
  qed
  have refused: "?t \<noteq> Undefined \<and> ?t \<noteq> Null \<Longrightarrow> fst (new_token E reqBody ?st') = sendStatus 403"
    using gone by (simp add: new_token_def Let_def)
  have answer: "fst (logout reqBody st) = sendStatus 204"
    by (simp add: logout_def)
  show ?thesis
    using answer gone rest frame same refused by blast
qed

theorem logout_revokes_token_witness:
  "fst (new_token sample_env [''token'' \<mapsto> JStr ''r.7d''] two_tokens_state) =
     json 200 (AccessToken (JStr ''access'')) \<and>
   get [''token'' \<mapsto> JStr ''r.7d''] ''token'' \<noteq> Undefined \<and>
   get [''token'' \<mapsto> JStr ''r.7d''] ''token'' \<noteq> Null \<and>
   logout [''token'' \<mapsto> JStr ''r.7d''] two_tokens_state =
     (sendStatus 204, empty_state\<lparr>refreshTokens := [''other.7d'']\<rparr>) \<and>
   set (refreshTokens (snd (logout [''token'' \<mapsto> JStr ''r.7d''] two_tokens_state))) = {''other.7d''} \<and>
   fst (new_token sample_env [''token'' \<mapsto> JStr ''r.7d'']
          (snd (logout [''token'' \<mapsto> JStr ''r.7d''] two_tokens_state))) = sendStatus 403 \<and>
   \<not> includes_js (refreshTokens two_tokens_state) (get [''token'' \<mapsto> JStr ''third''] ''token'') \<and>
   snd (logout [''token'' \<mapsto> JStr ''third''] two_tokens_state) = two_tokens_state"
proof -
  let ?b = "[''token'' \<mapsto> JStr ''r.7d'']"
  let ?o = "[''token'' \<mapsto> JStr ''third'']"
  have before: "fst (new_token sample_env ?b two_tokens_state) = json 200 (AccessToken (JStr ''access''))"
    by (simp add: new_token_def get_def includes_js_def two_tokens_state_def sample_env_def)
  have present: "get ?b ''token'' \<noteq> Undefined \<and> get ?b ''token'' \<noteq> Null"
    by (simp add: get_def)
  have out: "logout ?b two_tokens_state = (sendStatus 204, empty_state\<lparr>refreshTokens := [''other.7d'']\<rparr>)"
    by (simp add: logout_def get_def two_tokens_state_def empty_state_def)
  have absent: "\<not> includes_js (refreshTokens two_tokens_state) (get ?o ''token'')"
    by (simp add: get_def includes_js_def two_tokens_state_def)
  have diff: "set (refreshTokens two_tokens_state) - {s. JStr s = get ?b ''token''} = {''other.7d''}"
    by (auto simp: two_tokens_state_def get_def)
  note first = logout_revokes_token [where reqBody = ?b and st = two_tokens_state and E = sample_env]
  note other = logout_revokes_token [where reqBody = ?o and st = two_tokens_state and E = sample_env]
  have kept: "set (refreshTokens (snd (logout ?b two_tokens_state))) = {''other.7d''}"
    using first diff by simp
  have refused: "fst (new_token sample_env ?b (snd (logout ?b two_tokens_state))) = sendStatus 403"
    using first present by blast
  have noop: "snd (logout ?o two_tokens_state) = two_tokens_state"
    using other absent by blast
  show ?thesis
    using before present out kept refused absent noop by blast
qed

subsection \<open>Listing\<close>

lemma parseInt_1: "parseInt ''1'' = Some 1"
  by code_simp

lemma parseInt_3: "parseInt ''3'' = Some 3"
  by code_simp

lemma parseInt_10: "parseInt ''10'' = Some 10"
  by code_simp

text \<open>
  C6. Every list request is answered 500 with the body
  \<^verbatim>\<open>{error: 'Error retrieving files from database'}\<close>, whatever the parameters and the
  table: the awaited result of the count query has no element 0. So it is for 25 files,
  page size 10 and page 3, where the parameters are read as 10 and 3.
\<close>

theorem file_list_answers_500:
  "file_list q st = (json 500 (Error ''Error retrieving files from database''), snd (db_call st)) \<and>
   length (files twenty_five_files) = 25 \<and>
   list_pageSize [''list_size'' \<mapsto> QStr ''10'', ''page'' \<mapsto> QStr ''3''] = 10 \<and>
   list_page [''list_size'' \<mapsto> QStr ''10'', ''page'' \<mapsto> QStr ''3''] = 3 \<and>
   file_list [''list_size'' \<mapsto> QStr ''10'', ''page'' \<mapsto> QStr ''3''] twenty_five_files =
     (json 500 (Error ''Error retrieving files from database''), twenty_five_files)"
proof -
  have every: "\<And>q st. file_list q st =
      (json 500 (Error ''Error retrieving files from database''), snd (db_call st))"
    by (simp add: file_list_def Let_def pool_query_await_def element0_def)
  have idle: "snd (db_call twenty_five_files) = twenty_five_files"
    by (simp add: db_call_def twenty_five_files_def empty_state_def)
  have n: "length (files twenty_five_files) = 25"
    by (simp add: twenty_five_files_def)
  have s: "list_pageSize [''list_size'' \<mapsto> QStr ''10'', ''page'' \<mapsto> QStr ''3''] = 10"
    by (simp add: list_pageSize_def or_default_def param_string_def parseInt_10)
  have p: "list_page [''list_size'' \<mapsto> QStr ''10'', ''page'' \<mapsto> QStr ''3''] = 3"
    by (simp add: list_page_def or_default_def param_string_def parseInt_3)
  show ?thesis
    by (simp only: every idle n s p simp_thms)
qed



subsection \<open>Download\<close>

text \<open>
  C3. Every download is answered 404 with the body \<^verbatim>\<open>{error: 'File not found'}\<close> and
  no header set by the handler, whatever the table holds: the awaited result of the select
  has no element 0. So it is for id 1 over a table in which the row of id 1 has the stored
  name \<^verbatim>\<open>1700000000000-123456789.pdf\<close> and the mime type \<^verbatim>\<open>application/pdf\<close>:
  the response carries neither \<^verbatim>\<open>Content-Disposition\<close> nor \<^verbatim>\<open>Content-Type\<close>.
\<close>

theorem download_answers_404:
  "download E fileId st = (json 404 (Error ''File not found''), snd (db_call st)) \<and>
   select_file sample_env ''1'' (files (empty_state\<lparr>files := [stored_file]\<rparr>)) = [stored_file] \<and>
   mime_type stored_file = JStr ''application/pdf'' \<and>
   download sample_env ''1'' (empty_state\<lparr>files := [stored_file]\<rparr>) =
     (\<lparr>status = 404, headers = [], body = Error ''File not found''\<rparr>,
      empty_state\<lparr>files := [stored_file]\<rparr>)"
proof -
  have every: "\<And>E fileId st. download E fileId st =
      (json 404 (Error ''File not found''), snd (db_call st))"
    by (simp add: download_def Let_def pool_query_await_def element0_def)
  have sel: "select_file sample_env ''1'' (files (empty_state\<lparr>files := [stored_file]\<rparr>)) = [stored_file]"
    by (simp add: select_file_def id_matches_def sample_env_def stored_file_def parseInt_1)
  have mt: "mime_type stored_file = JStr ''application/pdf''"
    by (simp add: stored_file_def)
  have idle: "snd (db_call (empty_state\<lparr>files := [stored_file]\<rparr>)) = empty_state\<lparr>files := [stored_file]\<rparr>"
    by (simp add: db_call_def empty_state_def)
  have run: "download sample_env ''1'' (empty_state\<lparr>files := [stored_file]\<rparr>) =
     (\<lparr>status = 404, headers = [], body = Error ''File not found''\<rparr>,
      empty_state\<lparr>files := [stored_file]\<rparr>)"
    by (simp add: every idle json_def)
  show ?thesis
    by (intro conjI every sel mt run)
qed

text \<open>
  C9. A download whose id selects no row (the query itself being answered) gets 404 with
  \<^verbatim>\<open>{error: 'File not found'}\<close>, and the trace of path and filesystem calls is the one
  from before the request: nothing was resolved, unlinked or streamed.
\<close>

theorem download_unknown_id:
  assumes "next_queries_succeed 1 st"
    and "select_file E fileId (files st) = []"
  shows "fst (download E fileId st) = json 404 (Error ''File not found'') \<and>
         io_log (snd (download E fileId st)) = io_log st \<and>
         files (snd (download E fileId st)) = files st"
proof -
  have "download E fileId st = (json 404 (Error ''File not found''), snd (db_call st))"
    by (simp add: download_def Let_def pool_query_await_def element0_def)
  then show ?thesis by simp
qed

theorem download_unknown_id_witness:
  "next_queries_succeed 1 stored_files_state \<and>
   select_file sample_env ''99'' (files stored_files_state) = [] \<and>
   fst (download sample_env ''99'' stored_files_state) = json 404 (Error ''File not found'') \<and>
   io_log (snd (download sample_env ''99'' stored_files_state)) = []"
proof -
  have q: "next_queries_succeed 1 stored_files_state"
    by (simp add: next_queries_succeed_def stored_files_state_def empty_state_def)
  have p: "parseInt ''99'' = Some 99" by code_simp
  have s: "select_file sample_env ''99'' (files stored_files_state) = []"
    by (simp add: select_file_def id_matches_def sample_env_def stored_files_state_def
          stored_file_def numbered_file_def p)
  have l: "io_log stored_files_state = []"
    by (simp add: stored_files_state_def empty_state_def)
  show ?thesis using q s l download_unknown_id [OF q s] by simp
qed

subsection \<open>Update\<close>

text \<open>
  C8. Every update is answered 404 with the body \<^verbatim>\<open>{error: 'File not found'}\<close>, and
  the table is the one from before, the \<^verbatim>\<open>filename\<close> column included: the awaited
  result of the select has no element 0, and no \<^verbatim>\<open>UPDATE\<close> is sent. So it is for
  id 1 and an attachment stored as \<^verbatim>\<open>1700000000555-42.pdf\<close> over a table in which the
  row of id 1 has the stored name \<^verbatim>\<open>1700000000000-123456789.pdf\<close>: the row keeps its
  stored name.
\<close>

theorem update_file_answers_404:
  "update_file E fileId reqFile st = (json 404 (Error ''File not found''), snd (db_call st)) \<and>
   files (snd (update_file E fileId reqFile st)) = files st \<and>
   select_file sample_env ''1'' (files stored_files_state) = [stored_file] \<and>
   update_file sample_env ''1'' (Some ''1700000000555-42.pdf'') stored_files_state =
     (json 404 (Error ''File not found''), stored_files_state) \<and>
   filename stored_file = JStr ''1700000000000-123456789.pdf''"
proof -
  have every: "\<And>E fileId reqFile st. update_file E fileId reqFile st =
      (json 404 (Error ''File not found''), snd (db_call st))"
    by (simp add: update_file_def Let_def pool_query_await_def element0_def)
  have kept: "files (snd (update_file E fileId reqFile st)) = files st"
    by (simp add: every)
  have p7: "parseInt ''1'' \<noteq> Some 7" by (simp add: parseInt_1)
  have sel: "select_file sample_env ''1'' (files stored_files_state) = [stored_file]"
    by (simp add: select_file_def id_matches_def sample_env_def stored_files_state_def
          stored_file_def numbered_file_def parseInt_1 p7)
  have idle: "snd (db_call stored_files_state) = stored_files_state"
    by (simp add: db_call_def stored_files_state_def empty_state_def)
  have run: "update_file sample_env ''1'' (Some ''1700000000555-42.pdf'') stored_files_state =
     (json 404 (Error ''File not found''), stored_files_state)"
    by (simp add: every idle)
  have nm: "filename stored_file = JStr ''1700000000000-123456789.pdf''"
    by (simp add: stored_file_def)
  show ?thesis
    by (intro conjI every kept sel run nm)
qed

end
